theory Spec2Isabelle
  imports Main
begin

section \<open>Selective disclosure: the data of \<^verbatim>\<open>action-handler.ts\<close>\<close>

text \<open>
  The three methods of class \<^verbatim>\<open>SelectiveDisclosure\<close> are embedded as HOL functions.
  A JavaScript object is a record whose optional properties are \<open>option\<close> fields
  (\<open>None\<close> is \<^verbatim>\<open>undefined\<close>, the property is absent); an exception or a rejected
  promise is the \<open>Inl\<close> side of a sum; the awaited collaborators (identity manager,
  JWT signer, credential store) are parameters that thread a state of their own.

  Property names that clash with Isabelle keywords or with each other are prefixed:
  \<^verbatim>\<open>credential.issuer\<close> is \<open>vc_issuer\<close>, \<^verbatim>\<open>credential['@context']\<close> is \<open>vc_context\<close>,
  \<^verbatim>\<open>credential.type\<close> is \<open>vc_type\<close>, \<^verbatim>\<open>issuer.id\<close> is \<open>issuer_id\<close>.
\<close>

datatype error =
    TypeError            \<comment> \<open>property access on \<^verbatim>\<open>undefined\<close>\<close>
  | Error string         \<comment> \<open>\<^verbatim>\<open>throw Error(msg)\<close>\<close>
  | Rejected string      \<comment> \<open>a rejection coming from an awaited collaborator\<close>

text \<open>
  The values a decoded credential can hold under a claim name. The validator only
  compares such a value with a string (\<^verbatim>\<open>!==\<close>) and with \<^verbatim>\<open>undefined\<close>
  (\<^verbatim>\<open>===\<close>), so the payload of a number is never inspected; integers stand for numbers.
  \<open>JBuiltin\<close> is a function or object that a plain object inherits from
  \<^verbatim>\<open>Object.prototype\<close>, named by the property it is read from.
\<close>

datatype jsval =
    JUndefined
  | JNull
  | JBool bool
  | JNum int
  | JStr string
  | JArr "jsval list"
  | JObj "(string \<times> jsval) list"
  | JBuiltin string

record Issuer =
  did :: string

record ClaimRequest =
  claimType :: "string option"
  claimValue :: "string option"
  issuers :: "Issuer list option"
  credentialType :: "string option"
  credentialContext :: "string option"
  essential :: "bool option"

record CredentialIssuer =
  issuer_id :: "string option"

record Credential =
  credentialSubject :: "(string \<rightharpoonup> jsval) option"
  vc_issuer :: "CredentialIssuer option"
  vc_context :: "string list option"
  vc_type :: "string list option"

text \<open>\<^verbatim>\<open>{ ...credentialRequest, credentials }\<close>: the request's own fields and one more.\<close>

record CredentialsForClaim = ClaimRequest +
  credentials :: "Credential list"

record SDRManifest =
  issuer :: "string option"
  subject :: "string option"
  claims :: "ClaimRequest list"

record Presentation =
  verifiableCredential :: "Credential list"

record ValidationResult =
  valid :: bool
  result_claims :: "CredentialsForClaim list"

record ValidateArgs =
  sdr :: SDRManifest
  presentation :: Presentation

subsection \<open>JavaScript primitives\<close>

text \<open>Truthiness of an optional string: \<^verbatim>\<open>undefined\<close> and \<^verbatim>\<open>""\<close> are falsy.\<close>

fun truthy :: "string option \<Rightarrow> bool" where
  "truthy None = False"
| "truthy (Some s) = (s \<noteq> [])"

text \<open>
  The properties every plain object inherits from \<^verbatim>\<open>Object.prototype\<close>: none of
  them is a string and none is \<^verbatim>\<open>undefined\<close>.
\<close>

definition object_prototype :: "string \<rightharpoonup> jsval" where
  "object_prototype k =
     (if k \<in> set [''constructor'', ''hasOwnProperty'', ''isPrototypeOf'',
                    ''propertyIsEnumerable'', ''toLocaleString'', ''toString'', ''valueOf'',
                    ''__proto__'', ''__defineGetter__'', ''__defineSetter__'',
                    ''__lookupGetter__'', ''__lookupSetter__'']
      then Some (JBuiltin k) else None)"

text \<open>
  \<^verbatim>\<open>obj[key]\<close> on an object whose own properties are \<open>obj\<close>: an own property
  wins, then the prototype chain is followed, and only a key found in neither
  reads as \<^verbatim>\<open>undefined\<close>.
\<close>

definition js_get :: "(string \<rightharpoonup> jsval) \<Rightarrow> string \<Rightarrow> jsval" where
  "js_get obj k =
     (case obj k of
        Some v \<Rightarrow> v
      | None \<Rightarrow> (case object_prototype k of None \<Rightarrow> JUndefined | Some v \<Rightarrow> v))"

text \<open>
  \<^verbatim>\<open>credential.credentialSubject[claimType]\<close>: reading a property of \<^verbatim>\<open>undefined\<close>
  throws a TypeError.
\<close>

definition subject_get :: "Credential \<Rightarrow> string \<Rightarrow> error + jsval" where
  "subject_get credential k =
     (case credentialSubject credential of
        None \<Rightarrow> Inl TypeError
      | Some obj \<Rightarrow> Inr (js_get obj k))"

text \<open>\<^verbatim>\<open>xs.includes(x)\<close> on a possibly missing array of strings.\<close>

definition js_includes :: "string list option \<Rightarrow> string \<Rightarrow> error + bool" where
  "js_includes xs x = (case xs of None \<Rightarrow> Inl TypeError | Some ys \<Rightarrow> Inr (x \<in> set ys))"

text \<open>
  \<^verbatim>\<open>if (cond) { return false }\<close> followed by the rest of the callback: a condition
  that throws aborts, a true condition returns \<^verbatim>\<open>false\<close>, a false one falls through.
\<close>

definition return_false_if :: "error + bool \<Rightarrow> error + bool \<Rightarrow> error + bool" where
  "return_false_if cond rest =
     (case cond of Inl e \<Rightarrow> Inl e | Inr b \<Rightarrow> if b then Inr False else rest)"

text \<open>\<^verbatim>\<open>xs.filter(p)\<close> with a callback that may throw: the first exception aborts.\<close>

fun filter_throwing :: "('a \<Rightarrow> error + bool) \<Rightarrow> 'a list \<Rightarrow> error + 'a list" where
  "filter_throwing p [] = Inr []"
| "filter_throwing p (x # xs) =
     (case p x of
        Inl e \<Rightarrow> Inl e
      | Inr b \<Rightarrow>
          (case filter_throwing p xs of
             Inl e \<Rightarrow> Inl e
           | Inr ys \<Rightarrow> Inr (if b then x # ys else ys)))"

section \<open>The validator: \<^verbatim>\<open>validatePresentationAgainstSdr\<close>\<close>

text \<open>
  The five conditions of the filter callback (lines 153--184), in source order. Each
  is a conjunction with short-circuit \<^verbatim>\<open>&&\<close>: the property of the credential is
  read only when the guards on the request are truthy.
\<close>

definition cond_claimValue :: "ClaimRequest \<Rightarrow> Credential \<Rightarrow> error + bool" where
  "cond_claimValue credentialRequest credential =
     (case claimType credentialRequest of
        None \<Rightarrow> Inr False
      | Some t \<Rightarrow>
          if t = [] then Inr False
          else (case claimValue credentialRequest of
                  None \<Rightarrow> Inr False
                | Some v \<Rightarrow>
                    if v = [] then Inr False
                    else (case subject_get credential t of
                            Inl e \<Rightarrow> Inl e
                          | Inr x \<Rightarrow> Inr (x \<noteq> JStr v))))"

definition cond_claimType :: "ClaimRequest \<Rightarrow> Credential \<Rightarrow> error + bool" where
  "cond_claimType credentialRequest credential =
     (case claimType credentialRequest of
        None \<Rightarrow> Inr False
      | Some t \<Rightarrow>
          if t = [] then Inr False
          else if truthy (claimValue credentialRequest) then Inr False
          else (case subject_get credential t of
                  Inl e \<Rightarrow> Inl e
                | Inr x \<Rightarrow> Inr (x = JUndefined)))"

definition cond_issuers :: "ClaimRequest \<Rightarrow> Credential \<Rightarrow> error + bool" where
  "cond_issuers credentialRequest credential =
     (case issuers credentialRequest of
        None \<Rightarrow> Inr False
      | Some allowed \<Rightarrow>
          (case vc_issuer credential of
             None \<Rightarrow> Inl TypeError
           | Some i \<Rightarrow>
               (case issuer_id i of
                  None \<Rightarrow> Inr True
                | Some d \<Rightarrow> Inr (d \<notin> set (map did allowed)))))"

definition cond_credentialContext :: "ClaimRequest \<Rightarrow> Credential \<Rightarrow> error + bool" where
  "cond_credentialContext credentialRequest credential =
     (case credentialContext credentialRequest of
        None \<Rightarrow> Inr False
      | Some c \<Rightarrow>
          if c = [] then Inr False
          else (case js_includes (vc_context credential) c of
                  Inl e \<Rightarrow> Inl e
                | Inr b \<Rightarrow> Inr (\<not> b)))"

definition cond_credentialType :: "ClaimRequest \<Rightarrow> Credential \<Rightarrow> error + bool" where
  "cond_credentialType credentialRequest credential =
     (case credentialType credentialRequest of
        None \<Rightarrow> Inr False
      | Some c \<Rightarrow>
          if c = [] then Inr False
          else (case js_includes (vc_type credential) c of
                  Inl e \<Rightarrow> Inl e
                | Inr b \<Rightarrow> Inr (\<not> b)))"

text \<open>The arrow function passed to \<^verbatim>\<open>filter\<close> (lines 152--187): the matching predicate.\<close>

definition matches :: "ClaimRequest \<Rightarrow> Credential \<Rightarrow> error + bool" where
  "matches credentialRequest credential =
     return_false_if (cond_claimValue credentialRequest credential)
    (return_false_if (cond_claimType credentialRequest credential)
    (return_false_if (cond_issuers credentialRequest credential)
    (return_false_if (cond_credentialContext credentialRequest credential)
    (return_false_if (cond_credentialType credentialRequest credential)
    (Inr True)))))"

text \<open>
  The \<^verbatim>\<open>for ... of args.sdr.claims\<close> loop with its two mutable locals \<^verbatim>\<open>valid\<close>
  and \<^verbatim>\<open>claims\<close> (\<open>acc\<close>); \<^verbatim>\<open>claims.push\<close> appends.
\<close>

fun validate_loop ::
  "ClaimRequest list \<Rightarrow> Credential list \<Rightarrow> bool \<Rightarrow> CredentialsForClaim list
     \<Rightarrow> error + ValidationResult" where
  "validate_loop [] vcs v acc = Inr \<lparr>valid = v, result_claims = acc\<rparr>"
| "validate_loop (credentialRequest # rest) vcs v acc =
     (case filter_throwing (matches credentialRequest) vcs of
        Inl e \<Rightarrow> Inl e
      | Inr creds \<Rightarrow>
          validate_loop rest vcs
            (if essential credentialRequest = Some True \<and> length creds = 0 then False else v)
            (acc @ [ClaimRequest.extend credentialRequest (CredentialsForClaim.fields creds)]))"

definition validatePresentationAgainstSdr :: "ValidateArgs \<Rightarrow> error + ValidationResult" where
  "validatePresentationAgainstSdr args =
     validate_loop (claims (sdr args)) (verifiableCredential (presentation args)) True []"

text \<open>
  A credential that carries the four properties the callback reads. Nothing in the
  source checks it; it is the condition under which no property access can throw.
\<close>

definition well_formed_credential :: "Credential \<Rightarrow> bool" where
  "well_formed_credential c =
     (credentialSubject c \<noteq> None \<and> vc_issuer c \<noteq> None
      \<and> vc_context c \<noteq> None \<and> vc_type c \<noteq> None)"

section \<open>The gatherer: \<^verbatim>\<open>getVerifiableCredentialsForSdr\<close>\<close>

text \<open>
  One element of \<^verbatim>\<open>findArgs.where\<close>; the property \<^verbatim>\<open>value\<close> is \<open>vals\<close> and an
  absent \<^verbatim>\<open>op\<close> is \<open>None\<close>. \<^verbatim>\<open>findArgs.where\<close> itself is \<open>where_clauses\<close>.
\<close>

record Where =
  column :: string
  vals :: "string list"
  op :: "string option"

record FindArgs =
  where_clauses :: "Where list"

record GatherArgs =
  gather_sdr :: SDRManifest     \<comment> \<open>\<^verbatim>\<open>args.sdr\<close>\<close>
  gather_did :: "string option" \<comment> \<open>\<^verbatim>\<open>args.did\<close>\<close>

text \<open>
  \<^verbatim>\<open>context.agent.dataStoreORMGetVerifiableCredentialsByClaims\<close>: the external
  store, with a state of its own; it answers a query or rejects.
\<close>

type_synonym 's store = "FindArgs \<Rightarrow> 's \<Rightarrow> (error + Credential list) \<times> 's"

text \<open>\<^verbatim>\<open>findArgs.where?.push(w)\<close>\<close>

definition push :: "Where \<Rightarrow> FindArgs \<Rightarrow> FindArgs" where
  "push w findArgs = findArgs\<lparr>where_clauses := where_clauses findArgs @ [w]\<rparr>"

text \<open>\<^verbatim>\<open>a || b\<close> on optional strings: the first operand when truthy, else the second.\<close>

definition js_or :: "string option \<Rightarrow> string option \<Rightarrow> string option" where
  "js_or a b = (if truthy a then a else b)"

text \<open>The six conditional pushes of the loop body (lines 93--123), in source order.\<close>

definition push_claimType :: "ClaimRequest \<Rightarrow> FindArgs \<Rightarrow> FindArgs" where
  "push_claimType credentialRequest findArgs =
     (case claimType credentialRequest of
        None \<Rightarrow> findArgs
      | Some t \<Rightarrow>
          if t = [] then findArgs
          else push \<lparr>column = ''type'', vals = [t], op = None\<rparr> findArgs)"

definition push_claimValue :: "ClaimRequest \<Rightarrow> FindArgs \<Rightarrow> FindArgs" where
  "push_claimValue credentialRequest findArgs =
     (case claimValue credentialRequest of
        None \<Rightarrow> findArgs
      | Some v \<Rightarrow>
          if v = [] then findArgs
          else push \<lparr>column = ''value'', vals = [v], op = None\<rparr> findArgs)"

definition push_issuers :: "ClaimRequest \<Rightarrow> FindArgs \<Rightarrow> FindArgs" where
  "push_issuers credentialRequest findArgs =
     (case issuers credentialRequest of
        None \<Rightarrow> findArgs
      | Some allowed \<Rightarrow>
          push \<lparr>column = ''issuer'', vals = map did allowed, op = None\<rparr> findArgs)"

definition push_credentialType :: "ClaimRequest \<Rightarrow> FindArgs \<Rightarrow> FindArgs" where
  "push_credentialType credentialRequest findArgs =
     (case credentialType credentialRequest of
        None \<Rightarrow> findArgs
      | Some c \<Rightarrow>
          if c = [] then findArgs
          else push \<lparr>column = ''credentialType'', vals = [''%'' @ c @ ''%''],
                     op = Some ''Like''\<rparr> findArgs)"

definition push_credentialContext :: "ClaimRequest \<Rightarrow> FindArgs \<Rightarrow> FindArgs" where
  "push_credentialContext credentialRequest findArgs =
     (case credentialContext credentialRequest of
        None \<Rightarrow> findArgs
      | Some c \<Rightarrow>
          if c = [] then findArgs
          else push \<lparr>column = ''context'', vals = [''%'' @ c @ ''%''],
                     op = Some ''Like''\<rparr> findArgs)"

definition push_subject :: "GatherArgs \<Rightarrow> FindArgs \<Rightarrow> FindArgs" where
  "push_subject args findArgs =
     (case js_or (gather_did args) (subject (gather_sdr args)) of
        None \<Rightarrow> findArgs
      | Some s \<Rightarrow>
          if s = [] then findArgs
          else push \<lparr>column = ''subject'', vals = [s], op = None\<rparr> findArgs)"

definition push_all :: "GatherArgs \<Rightarrow> ClaimRequest \<Rightarrow> FindArgs \<Rightarrow> FindArgs" where
  "push_all args credentialRequest findArgs =
     push_subject args
    (push_credentialContext credentialRequest
    (push_credentialType credentialRequest
    (push_issuers credentialRequest
    (push_claimValue credentialRequest
    (push_claimType credentialRequest findArgs)))))"

text \<open>
  The loop over \<^verbatim>\<open>args.sdr.claims\<close>. \<^verbatim>\<open>findArgs\<close> and \<^verbatim>\<open>result\<close> are declared
  before the loop (lines 90--91) and live across its iterations, so both are
  threaded through the recursion; a rejection of the store ends the call.
\<close>

fun gather_loop ::
  "'s store \<Rightarrow> GatherArgs \<Rightarrow> ClaimRequest list \<Rightarrow> FindArgs \<Rightarrow> CredentialsForClaim list \<Rightarrow> 's
     \<Rightarrow> (error + CredentialsForClaim list) \<times> 's" where
  "gather_loop store args [] findArgs result s = (Inr result, s)"
| "gather_loop store args (credentialRequest # rest) findArgs result s =
     (let findArgs' = push_all args credentialRequest findArgs in
      case store findArgs' s of
        (Inl e, s') \<Rightarrow> (Inl e, s')
      | (Inr creds, s') \<Rightarrow>
          gather_loop store args rest findArgs'
            (result @ [ClaimRequest.extend credentialRequest (CredentialsForClaim.fields creds)])
            s')"

definition getVerifiableCredentialsForSdr ::
  "'s store \<Rightarrow> GatherArgs \<Rightarrow> 's \<Rightarrow> (error + CredentialsForClaim list) \<times> 's" where
  "getVerifiableCredentialsForSdr store args s =
     gather_loop store args (claims (gather_sdr args)) \<lparr>where_clauses = []\<rparr> [] s"

text \<open>
  A store that answers every query from a fixed table and keeps, as its state, the
  list of filters it was called with, each as it stood at the time of the call.
\<close>

definition recording_store :: "(FindArgs \<Rightarrow> Credential list) \<Rightarrow> (FindArgs list) store" where
  "recording_store answer findArgs log = (Inr (answer findArgs), log @ [findArgs])"

definition no_credentials :: "FindArgs \<Rightarrow> Credential list" where
  "no_credentials findArgs = []"

text \<open>The clauses one iteration of the loop adds: what it pushes onto an empty filter.\<close>

definition request_clauses :: "GatherArgs \<Rightarrow> ClaimRequest \<Rightarrow> Where list" where
  "request_clauses args credentialRequest =
     where_clauses (push_all args credentialRequest \<lparr>where_clauses = []\<rparr>)"

section \<open>The builder: \<^verbatim>\<open>createSelectiveDisclosureRequest\<close>\<close>

record Key =
  kid :: string
  key_type :: string            \<comment> \<open>\<^verbatim>\<open>key.type\<close>\<close>

record Identity =
  identity_did :: string        \<comment> \<open>\<^verbatim>\<open>identity.did\<close>\<close>
  keys :: "Key list"

text \<open>\<^verbatim>\<open>{ type: 'sdr', ...data }\<close>: the manifest's own fields and \<^verbatim>\<open>type\<close>.\<close>

record SDRPayload = SDRManifest +
  payload_type :: string

text \<open>
  The second argument of \<^verbatim>\<open>createJWT\<close>. The \<^verbatim>\<open>signer\<close> closure captures only
  \<^verbatim>\<open>key.kid\<close>, which stands for it.
\<close>

record JWTOptions =
  signer_kid :: string
  alg :: string
  jwt_issuer :: string          \<comment> \<open>\<^verbatim>\<open>issuer: identity.did\<close>\<close>

record CreateArgs =
  data :: SDRManifest

type_synonym 'w identityManager = "string option \<Rightarrow> 'w \<Rightarrow> (error + Identity) \<times> 'w"
type_synonym 'w jwtSigner = "SDRPayload \<Rightarrow> JWTOptions \<Rightarrow> 'w \<Rightarrow> (error + string) \<times> 'w"

text \<open>
  The result is the promise's outcome, the object \<^verbatim>\<open>args.data\<close> as the call leaves
  it (\<^verbatim>\<open>delete data.issuer\<close> acts on the caller's object), and the collaborators'
  state. The \<^verbatim>\<open>catch\<close> turns every exception into a rejection, the \<open>Inl\<close> side.
\<close>

definition createSelectiveDisclosureRequest ::
  "'w identityManager \<Rightarrow> 'w jwtSigner \<Rightarrow> CreateArgs \<Rightarrow> 'w
     \<Rightarrow> (error + string) \<times> SDRManifest \<times> 'w" where
  "createSelectiveDisclosureRequest identityManagerGetIdentity createJWT args w =
     (case identityManagerGetIdentity (issuer (data args)) w of
        (Inl e, w1) \<Rightarrow> (Inl e, data args, w1)
      | (Inr identity, w1) \<Rightarrow>
          (let data' = (data args)\<lparr>issuer := None\<rparr> in
           case find (\<lambda>k. key_type k = ''Secp256k1'') (keys identity) of
             None \<Rightarrow> (Inl (Error ''Signing key not found''), data', w1)
           | Some key \<Rightarrow>
               (case createJWT
                       (SDRManifest.extend data' (SDRPayload.fields ''sdr''))
                       \<lparr>signer_kid = kid key, alg = ''ES256K-R'',
                        jwt_issuer = identity_did identity\<rparr>
                       w1 of
                  (r, w2) \<Rightarrow> (r, data', w2))))"

text \<open>
  Two collaborators to run the builder against: an identity manager that knows one
  identity, and a signer that returns a fixed token and keeps the payloads it was
  given as its state.
\<close>

definition resolving :: "Identity \<Rightarrow> 'w identityManager" where
  "resolving identity d w =
     (if d = Some (identity_did identity) then (Inr identity, w)
      else (Inl (Rejected ''Identity not found''), w))"

definition recording_signer :: "string \<Rightarrow> (SDRPayload list) jwtSigner" where
  "recording_signer token payload options log = (Inr token, log @ [payload])"

section \<open>Auxiliary facts\<close>

subsection \<open>Records and the throwing filter\<close>

lemmas extend_defs = ClaimRequest.extend_def CredentialsForClaim.fields_def ClaimRequest.truncate_def

lemma extend_fields [simp]:
  "claimType (ClaimRequest.extend r (CredentialsForClaim.fields cs)) = claimType r"
  "claimValue (ClaimRequest.extend r (CredentialsForClaim.fields cs)) = claimValue r"
  "issuers (ClaimRequest.extend r (CredentialsForClaim.fields cs)) = issuers r"
  "credentialType (ClaimRequest.extend r (CredentialsForClaim.fields cs)) = credentialType r"
  "credentialContext (ClaimRequest.extend r (CredentialsForClaim.fields cs)) = credentialContext r"
  "essential (ClaimRequest.extend r (CredentialsForClaim.fields cs)) = essential r"
  "credentials (ClaimRequest.extend r (CredentialsForClaim.fields cs)) = cs"
  "ClaimRequest.truncate (ClaimRequest.extend r (CredentialsForClaim.fields cs)) = r"
  by (simp_all add: ClaimRequest.extend_def CredentialsForClaim.fields_def ClaimRequest.truncate_def)

lemma filter_throwing_returns:
  "(\<exists>ys. filter_throwing p xs = Inr ys) \<longleftrightarrow> (\<forall>x\<in>set xs. \<exists>b. p x = Inr b)"
  by (induction xs) (auto split: sum.splits)

lemma filter_throwing_Inl:
  "filter_throwing p xs = Inl e \<Longrightarrow> \<exists>x\<in>set xs. p x = Inl e"
  by (induction xs) (auto split: sum.splits)

subsection \<open>The matching predicate\<close>

lemmas matches_defs =
  matches_def return_false_if_def cond_claimValue_def cond_claimType_def cond_issuers_def
  cond_credentialContext_def cond_credentialType_def subject_get_def js_includes_def js_get_def
  object_prototype_def

lemma return_false_if_Inl:
  "return_false_if cond rest = Inl e \<longleftrightarrow> cond = Inl e \<or> (cond = Inr False \<and> rest = Inl e)"
  by (cases cond) (auto simp: return_false_if_def)

lemma return_false_if_True:
  "return_false_if cond rest = Inr True \<longleftrightarrow> cond = Inr False \<and> rest = Inr True"
  by (cases cond) (auto simp: return_false_if_def)

lemma return_false_if_total:
  "\<exists>b. cond = Inr b \<Longrightarrow> \<exists>b. rest = Inr b \<Longrightarrow> \<exists>b. return_false_if cond rest = Inr b"
  by (auto simp: return_false_if_def)

lemma cond_claimValue_error: "cond_claimValue r c = Inl e \<Longrightarrow> e = TypeError"
  by (auto simp: cond_claimValue_def subject_get_def split: option.splits if_splits)

lemma cond_claimType_error: "cond_claimType r c = Inl e \<Longrightarrow> e = TypeError"
  by (auto simp: cond_claimType_def subject_get_def split: option.splits if_splits)

lemma cond_issuers_error: "cond_issuers r c = Inl e \<Longrightarrow> e = TypeError"
  by (auto simp: cond_issuers_def split: option.splits if_splits)

lemma cond_credentialContext_error: "cond_credentialContext r c = Inl e \<Longrightarrow> e = TypeError"
  by (auto simp: cond_credentialContext_def js_includes_def split: option.splits if_splits)

lemma cond_credentialType_error: "cond_credentialType r c = Inl e \<Longrightarrow> e = TypeError"
  by (auto simp: cond_credentialType_def js_includes_def split: option.splits if_splits)

lemma matches_error: "matches r c = Inl e \<Longrightarrow> e = TypeError"
  unfolding matches_def return_false_if_Inl
  using cond_claimValue_error cond_claimType_error cond_issuers_error
    cond_credentialContext_error cond_credentialType_error
  by blast

lemma cond_claimValue_total:
  "credentialSubject c \<noteq> None \<Longrightarrow> \<exists>b. cond_claimValue r c = Inr b"
  by (auto simp: cond_claimValue_def subject_get_def split: option.splits)

lemma cond_claimType_total:
  "credentialSubject c \<noteq> None \<Longrightarrow> \<exists>b. cond_claimType r c = Inr b"
  by (auto simp: cond_claimType_def subject_get_def split: option.splits)

lemma cond_issuers_total:
  "vc_issuer c \<noteq> None \<Longrightarrow> \<exists>b. cond_issuers r c = Inr b"
  by (auto simp: cond_issuers_def split: option.splits)

lemma cond_credentialContext_total:
  "vc_context c \<noteq> None \<Longrightarrow> \<exists>b. cond_credentialContext r c = Inr b"
  by (auto simp: cond_credentialContext_def js_includes_def split: option.splits)

lemma cond_credentialType_total:
  "vc_type c \<noteq> None \<Longrightarrow> \<exists>b. cond_credentialType r c = Inr b"
  by (auto simp: cond_credentialType_def js_includes_def split: option.splits)

lemma matches_well_formed:
  assumes "well_formed_credential c"
  shows "\<exists>b. matches r c = Inr b"
proof -
  from assms have p: "credentialSubject c \<noteq> None" "vc_issuer c \<noteq> None"
    "vc_context c \<noteq> None" "vc_type c \<noteq> None"
    by (simp_all add: well_formed_credential_def)
  show ?thesis
    unfolding matches_def
    by (intro return_false_if_total cond_claimValue_total cond_claimType_total
        cond_issuers_total cond_credentialContext_total cond_credentialType_total p) blast
qed

lemma matches_missing_context:
  assumes "\<not> truthy (claimType r)" "issuers r = None"
    "credentialContext r = Some T" "T \<noteq> []" "vc_context c = None"
  shows "matches r c = Inl TypeError"
  using assms by (cases "claimType r") (simp_all add: matches_defs)

lemma matches_missing_type:
  assumes "\<not> truthy (claimType r)" "issuers r = None" "\<not> truthy (credentialContext r)"
    "credentialType r = Some T" "T \<noteq> []" "vc_type c = None"
  shows "matches r c = Inl TypeError"
  using assms by (cases "claimType r"; cases "credentialContext r") (simp_all add: matches_defs)

lemma matches_requires_type:
  assumes "credentialType r = Some T" "T \<noteq> []" "matches r c = Inr True"
  shows "\<exists>ts. vc_type c = Some ts \<and> T \<in> set ts"
proof -
  from assms(3) have "cond_credentialType r c = Inr False"
    by (simp add: matches_def return_false_if_True)
  with assms(1,2) show ?thesis
    by (cases "vc_type c") (simp_all add: cond_credentialType_def js_includes_def)
qed

lemma matches_requires_context:
  assumes "credentialContext r = Some T" "T \<noteq> []" "matches r c = Inr True"
  shows "\<exists>cs. vc_context c = Some cs \<and> T \<in> set cs"
proof -
  from assms(3) have "cond_credentialContext r c = Inr False"
    by (simp add: matches_def return_false_if_True)
  with assms(1,2) show ?thesis
    by (cases "vc_context c") (simp_all add: cond_credentialContext_def js_includes_def)
qed

lemma cond_other_fields:
  "cond_issuers (r\<lparr>claimValue := v\<rparr>) c = cond_issuers r c"
  "cond_credentialContext (r\<lparr>claimValue := v\<rparr>) c = cond_credentialContext r c"
  "cond_credentialType (r\<lparr>claimValue := v\<rparr>) c = cond_credentialType r c"
  "cond_issuers (r\<lparr>claimType := v\<rparr>) c = cond_issuers r c"
  "cond_credentialContext (r\<lparr>claimType := v\<rparr>) c = cond_credentialContext r c"
  "cond_credentialType (r\<lparr>claimType := v\<rparr>) c = cond_credentialType r c"
  "cond_claimValue (r\<lparr>credentialType := v\<rparr>) c = cond_claimValue r c"
  "cond_claimType (r\<lparr>credentialType := v\<rparr>) c = cond_claimType r c"
  "cond_issuers (r\<lparr>credentialType := v\<rparr>) c = cond_issuers r c"
  "cond_credentialContext (r\<lparr>credentialType := v\<rparr>) c = cond_credentialContext r c"
  "cond_claimValue (r\<lparr>credentialContext := v\<rparr>) c = cond_claimValue r c"
  "cond_claimType (r\<lparr>credentialContext := v\<rparr>) c = cond_claimType r c"
  "cond_issuers (r\<lparr>credentialContext := v\<rparr>) c = cond_issuers r c"
  "cond_credentialType (r\<lparr>credentialContext := v\<rparr>) c = cond_credentialType r c"
  by (simp_all add: cond_claimValue_def cond_claimType_def cond_issuers_def
      cond_credentialContext_def cond_credentialType_def split: option.split)

lemma cond_empty_string:
  "cond_claimValue (r\<lparr>claimValue := Some []\<rparr>) c = cond_claimValue (r\<lparr>claimValue := None\<rparr>) c"
  "cond_claimType (r\<lparr>claimValue := Some []\<rparr>) c = cond_claimType (r\<lparr>claimValue := None\<rparr>) c"
  "cond_claimValue (r\<lparr>claimType := Some []\<rparr>) c = cond_claimValue (r\<lparr>claimType := None\<rparr>) c"
  "cond_claimType (r\<lparr>claimType := Some []\<rparr>) c = cond_claimType (r\<lparr>claimType := None\<rparr>) c"
  "cond_credentialType (r\<lparr>credentialType := Some []\<rparr>) c
     = cond_credentialType (r\<lparr>credentialType := None\<rparr>) c"
  "cond_credentialContext (r\<lparr>credentialContext := Some []\<rparr>) c
     = cond_credentialContext (r\<lparr>credentialContext := None\<rparr>) c"
  by (simp_all add: cond_claimValue_def cond_claimType_def
      cond_credentialContext_def cond_credentialType_def split: option.split)

subsection \<open>The validator loop\<close>

lemma validate_loop_returns:
  "(\<exists>res. validate_loop rs vcs v acc = Inr res) \<longleftrightarrow>
     (\<forall>r\<in>set rs. \<forall>c\<in>set vcs. \<exists>b. matches r c = Inr b)"
proof (induction rs arbitrary: v acc)
  case Nil
  show ?case by simp
next
  case (Cons r rs)
  show ?case
  proof (cases "filter_throwing (matches r) vcs")
    case (Inl e)
    then have "\<not> (\<forall>c\<in>set vcs. \<exists>b. matches r c = Inr b)"
      using filter_throwing_returns [of "matches r" vcs] by simp
    with Inl show ?thesis by auto
  next
    case (Inr creds)
    then have "\<forall>c\<in>set vcs. \<exists>b. matches r c = Inr b"
      using filter_throwing_returns [of "matches r" vcs] by blast
    with Inr Cons.IH show ?thesis by simp
  qed
qed

lemma validate_loop_error:
  "validate_loop rs vcs v acc = Inl e \<Longrightarrow> e = TypeError"
proof (induction rs arbitrary: v acc)
  case Nil
  then show ?case by simp
next
  case (Cons r rs)
  then show ?case
    by (auto split: sum.splits dest!: filter_throwing_Inl matches_error)
qed

lemma validate_loop_claims:
  "validate_loop rs vcs v acc = Inr res \<Longrightarrow>
     \<exists>new. result_claims res = acc @ new \<and> map ClaimRequest.truncate new = rs \<and>
       (valid res \<longleftrightarrow> v \<and> (\<forall>x\<in>set new. \<not> (essential x = Some True \<and> credentials x = [])))"
proof (induction rs arbitrary: v acc)
  case Nil
  then show ?case by auto
next
  case (Cons r rs)
  from Cons.prems obtain creds where
    f: "filter_throwing (matches r) vcs = Inr creds" and
    l: "validate_loop rs vcs
          (if essential r = Some True \<and> length creds = 0 then False else v)
          (acc @ [ClaimRequest.extend r (CredentialsForClaim.fields creds)]) = Inr res"
    by (auto split: sum.splits)
  from Cons.IH [OF l] obtain new where
    n: "result_claims res = (acc @ [ClaimRequest.extend r (CredentialsForClaim.fields creds)]) @ new"
       "map ClaimRequest.truncate new = rs"
       "valid res \<longleftrightarrow> (if essential r = Some True \<and> length creds = 0 then False else v)
          \<and> (\<forall>x\<in>set new. \<not> (essential x = Some True \<and> credentials x = []))"
    by blast
  let ?new = "ClaimRequest.extend r (CredentialsForClaim.fields creds) # new"
  have a: "result_claims res = acc @ ?new" using n(1) by simp
  have b: "map ClaimRequest.truncate ?new = r # rs" using n(2) by simp
  have c: "valid res \<longleftrightarrow> v \<and> (\<forall>x\<in>set ?new. \<not> (essential x = Some True \<and> credentials x = []))"
    using n(3) by auto
  show ?case
    by (rule exI [of _ ?new]) (use a b c in blast)
qed

lemma validate_raises:
  assumes "r \<in> set (claims (sdr args))"
    and "c \<in> set (verifiableCredential (presentation args))"
    and "matches r c = Inl e"
  shows "validatePresentationAgainstSdr args = Inl TypeError"
proof (cases "validatePresentationAgainstSdr args")
  case (Inl e')
  then show ?thesis
    using validate_loop_error by (simp add: validatePresentationAgainstSdr_def)
next
  case (Inr res)
  then have "\<exists>b. matches r c = Inr b"
    using assms(1,2) validate_loop_returns
      [of "claims (sdr args)" "verifiableCredential (presentation args)" True "[]"]
    unfolding validatePresentationAgainstSdr_def by blast
  with assms(3) show ?thesis by simp
qed

subsection \<open>The gatherer loop\<close>

lemmas push_defs =
  push_all_def push_subject_def push_credentialContext_def push_credentialType_def
  push_issuers_def push_claimValue_def push_claimType_def push_def js_or_def

lemma push_where:
  "where_clauses (push w findArgs) = where_clauses findArgs @ [w]"
  by (simp add: push_def)

lemma push_claimType_where:
  "where_clauses (push_claimType r findArgs) =
     where_clauses findArgs @ where_clauses (push_claimType r \<lparr>where_clauses = []\<rparr>)"
  by (simp add: push_claimType_def push_where split: option.split)

lemma push_claimValue_where:
  "where_clauses (push_claimValue r findArgs) =
     where_clauses findArgs @ where_clauses (push_claimValue r \<lparr>where_clauses = []\<rparr>)"
  by (simp add: push_claimValue_def push_where split: option.split)

lemma push_issuers_where:
  "where_clauses (push_issuers r findArgs) =
     where_clauses findArgs @ where_clauses (push_issuers r \<lparr>where_clauses = []\<rparr>)"
  by (simp add: push_issuers_def push_where split: option.split)

lemma push_credentialType_where:
  "where_clauses (push_credentialType r findArgs) =
     where_clauses findArgs @ where_clauses (push_credentialType r \<lparr>where_clauses = []\<rparr>)"
  by (simp add: push_credentialType_def push_where split: option.split)

lemma push_credentialContext_where:
  "where_clauses (push_credentialContext r findArgs) =
     where_clauses findArgs @ where_clauses (push_credentialContext r \<lparr>where_clauses = []\<rparr>)"
  by (simp add: push_credentialContext_def push_where split: option.split)

lemma push_subject_where:
  "where_clauses (push_subject args findArgs) =
     where_clauses findArgs @ where_clauses (push_subject args \<lparr>where_clauses = []\<rparr>)"
  by (simp add: push_subject_def push_where split: option.split)

lemma push_all_clauses:
  "where_clauses (push_all args r findArgs) =
     where_clauses findArgs
     @ where_clauses (push_claimType r \<lparr>where_clauses = []\<rparr>)
     @ where_clauses (push_claimValue r \<lparr>where_clauses = []\<rparr>)
     @ where_clauses (push_issuers r \<lparr>where_clauses = []\<rparr>)
     @ where_clauses (push_credentialType r \<lparr>where_clauses = []\<rparr>)
     @ where_clauses (push_credentialContext r \<lparr>where_clauses = []\<rparr>)
     @ where_clauses (push_subject args \<lparr>where_clauses = []\<rparr>)"
  unfolding push_all_def
  by (subst push_subject_where, subst push_credentialContext_where,
      subst push_credentialType_where, subst push_issuers_where,
      subst push_claimValue_where, subst push_claimType_where) simp

lemma push_all_where:
  "push_all args r findArgs =
     \<lparr>where_clauses = where_clauses findArgs @ request_clauses args r\<rparr>"
proof -
  have "where_clauses (push_all args r findArgs) =
          where_clauses findArgs @ request_clauses args r"
    unfolding request_clauses_def
    by (simp add: push_all_clauses [of args r findArgs]
        push_all_clauses [of args r "\<lparr>where_clauses = []\<rparr>"])
  then show ?thesis
    by (cases "push_all args r findArgs") simp
qed

lemma like_credentialType_pushed:
  "credentialType r = Some T \<Longrightarrow> T \<noteq> [] \<Longrightarrow>
   \<lparr>column = ''credentialType'', vals = [''%'' @ T @ ''%''], op = Some ''Like''\<rparr>
     \<in> set (request_clauses args r)"
  unfolding request_clauses_def
  by (subst push_all_clauses) (simp add: push_credentialType_def push_def)

lemma like_credentialContext_pushed:
  "credentialContext r = Some T \<Longrightarrow> T \<noteq> [] \<Longrightarrow>
   \<lparr>column = ''context'', vals = [''%'' @ T @ ''%''], op = Some ''Like''\<rparr>
     \<in> set (request_clauses args r)"
  unfolding request_clauses_def
  by (subst push_all_clauses) (simp add: push_credentialContext_def push_def)

lemma gather_loop_recording:
  "snd (gather_loop (recording_store answer) args rs findArgs result log) =
     log @ map (\<lambda>i. \<lparr>where_clauses = where_clauses findArgs @
                        concat (map (request_clauses args) (take (Suc i) rs))\<rparr>)
               [0..<length rs]"
proof (induction rs arbitrary: findArgs result log)
  case Nil
  show ?case by simp
next
  case (Cons r rs)
  let ?fa = "push_all args r findArgs"
  have step: "gather_loop (recording_store answer) args (r # rs) findArgs result log =
      gather_loop (recording_store answer) args rs ?fa
        (result @ [ClaimRequest.extend r (CredentialsForClaim.fields (answer ?fa))])
        (log @ [?fa])"
    by (simp add: Let_def recording_store_def)
  have fa: "?fa = \<lparr>where_clauses = where_clauses findArgs @ request_clauses args r\<rparr>"
    by (rule push_all_where)
  show ?case
    unfolding step Cons.IH
    by (simp add: fa map_upt_Suc del: upt_Suc)
qed

lemma gather_recorded_filter:
  assumes "i < length (claims (gather_sdr args))"
  shows "snd (getVerifiableCredentialsForSdr (recording_store answer) args []) ! i =
     \<lparr>where_clauses = concat (map (request_clauses args) (take (Suc i) (claims (gather_sdr args))))\<rparr>"
  using assms by (simp add: getVerifiableCredentialsForSdr_def gather_loop_recording del: upt_Suc)

lemma gather_recorded_filter_contains:
  assumes "i < length (claims (gather_sdr args))"
    and "w \<in> set (request_clauses args (claims (gather_sdr args) ! i))"
  shows "w \<in> set (where_clauses (snd (getVerifiableCredentialsForSdr (recording_store answer) args []) ! i))"
proof -
  have "claims (gather_sdr args) ! i \<in> set (take (Suc i) (claims (gather_sdr args)))"
    using assms(1) by (metis in_set_conv_nth length_take lessI min_less_iff_conj nth_take)
  with assms(2) show ?thesis
    by (auto simp: gather_recorded_filter [OF assms(1)])
qed

section \<open>The gatherer's filters\<close>

text \<open>
  C1. The claim: each ClaimRequest is queried on its own, the filter for the i-th
  request holding no predicate of an earlier one. The code declares \<^verbatim>\<open>findArgs\<close>
  once, before the loop, and only pushes onto it. For the manifest
  \<^verbatim>\<open>claims = [{claimType: 'name'}, {claimType: 'email'}]\<close> the store is called
  twice, and the second filter still holds the first request's predicate on
  \<^verbatim>\<open>type\<close>.
\<close>

theorem gather_second_filter_accumulates:
  "snd (getVerifiableCredentialsForSdr (recording_store no_credentials)
          \<lparr>gather_sdr = \<lparr>issuer = None, subject = None,
             claims = [\<lparr>claimType = Some ''name'', claimValue = None, issuers = None,
                        credentialType = None, credentialContext = None, essential = None\<rparr>,
                       \<lparr>claimType = Some ''email'', claimValue = None, issuers = None,
                        credentialType = None, credentialContext = None, essential = None\<rparr>]\<rparr>,
           gather_did = None\<rparr> [])
   = [\<lparr>where_clauses = [\<lparr>column = ''type'', vals = [''name''], op = None\<rparr>]\<rparr>,
      \<lparr>where_clauses = [\<lparr>column = ''type'', vals = [''name''], op = None\<rparr>,
                        \<lparr>column = ''type'', vals = [''email''], op = None\<rparr>]\<rparr>]"
  by (simp add: getVerifiableCredentialsForSdr_def recording_store_def Let_def push_defs)

section \<open>The validator\<close>

text \<open>
  C2, as amended. When every presented credential carries \<^verbatim>\<open>credentialSubject\<close>,
  \<^verbatim>\<open>issuer\<close>, \<^verbatim>\<open>@context\<close> and \<^verbatim>\<open>type\<close>, the validator returns a
  structured result. A missing \<^verbatim>\<open>@context\<close> or \<^verbatim>\<open>type\<close> is not read as an empty
  sequence: when a request that reaches the membership check (no claim type, no
  issuers, a non-empty \<^verbatim>\<open>credentialContext\<close>, respectively \<^verbatim>\<open>credentialType\<close>)
  meets a credential without that property, the whole validation ends in a TypeError.
\<close>

theorem validate_returns_if_well_formed:
  "((\<forall>c\<in>set (verifiableCredential (presentation args)). well_formed_credential c)
      \<longrightarrow> (\<exists>res. validatePresentationAgainstSdr args = Inr res))
   \<and> (r \<in> set (claims (sdr args)) \<and> c \<in> set (verifiableCredential (presentation args))
        \<and> \<not> truthy (claimType r) \<and> issuers r = None
        \<and> credentialContext r = Some T \<and> T \<noteq> [] \<and> vc_context c = None
      \<longrightarrow> validatePresentationAgainstSdr args = Inl TypeError)
   \<and> (r \<in> set (claims (sdr args)) \<and> c \<in> set (verifiableCredential (presentation args))
        \<and> \<not> truthy (claimType r) \<and> issuers r = None \<and> \<not> truthy (credentialContext r)
        \<and> credentialType r = Some T \<and> T \<noteq> [] \<and> vc_type c = None
      \<longrightarrow> validatePresentationAgainstSdr args = Inl TypeError)"
proof (intro conjI impI)
  assume "\<forall>c\<in>set (verifiableCredential (presentation args)). well_formed_credential c"
  then have "\<forall>r\<in>set (claims (sdr args)). \<forall>c\<in>set (verifiableCredential (presentation args)).
      \<exists>b. matches r c = Inr b"
    using matches_well_formed by blast
  then show "\<exists>res. validatePresentationAgainstSdr args = Inr res"
    unfolding validatePresentationAgainstSdr_def using validate_loop_returns by blast
next
  assume a: "r \<in> set (claims (sdr args)) \<and> c \<in> set (verifiableCredential (presentation args))
        \<and> \<not> truthy (claimType r) \<and> issuers r = None
        \<and> credentialContext r = Some T \<and> T \<noteq> [] \<and> vc_context c = None"
  then have "matches r c = Inl TypeError"
    using matches_missing_context by blast
  with a show "validatePresentationAgainstSdr args = Inl TypeError"
    using validate_raises by blast
next
  assume a: "r \<in> set (claims (sdr args)) \<and> c \<in> set (verifiableCredential (presentation args))
        \<and> \<not> truthy (claimType r) \<and> issuers r = None \<and> \<not> truthy (credentialContext r)
        \<and> credentialType r = Some T \<and> T \<noteq> [] \<and> vc_type c = None"
  then have "matches r c = Inl TypeError"
    using matches_missing_type by blast
  with a show "validatePresentationAgainstSdr args = Inl TypeError"
    using validate_raises by blast
qed

text \<open>
  The claim as stated fails: one request with a \<^verbatim>\<open>credentialContext\<close>, one
  credential without \<^verbatim>\<open>@context\<close>, and the call throws instead of returning a result
  with no match.
\<close>

theorem validate_missing_context_raises:
  "validatePresentationAgainstSdr
     \<lparr>sdr = \<lparr>issuer = None, subject = None,
             claims = [\<lparr>claimType = None, claimValue = None, issuers = None,
                        credentialType = None, credentialContext = Some ''https://www.w3.org/2018/credentials/v1'',
                        essential = None\<rparr>]\<rparr>,
      presentation = \<lparr>verifiableCredential =
             [\<lparr>credentialSubject = Some [''name'' \<mapsto> JStr ''Alice''],
               vc_issuer = Some \<lparr>issuer_id = Some ''did:x''\<rparr>,
               vc_context = None, vc_type = Some []\<rparr>]\<rparr>\<rparr>
   = Inl TypeError"
  by (simp add: validatePresentationAgainstSdr_def matches_defs)

text \<open>The amended statement at concrete inputs, one for each of its three parts.\<close>

theorem validate_returns_if_well_formed_witness:
  "(\<exists>res. validatePresentationAgainstSdr
     \<lparr>sdr = \<lparr>issuer = None, subject = None,
             claims = [\<lparr>claimType = Some ''name'', claimValue = None, issuers = None,
                        credentialType = Some ''VerifiableCredential'',
                        credentialContext = None, essential = Some True\<rparr>]\<rparr>,
      presentation = \<lparr>verifiableCredential =
             [\<lparr>credentialSubject = Some [''name'' \<mapsto> JStr ''Alice''],
               vc_issuer = Some \<lparr>issuer_id = Some ''did:x''\<rparr>,
               vc_context = Some [], vc_type = Some []\<rparr>]\<rparr>\<rparr> = Inr res)
   \<and> validatePresentationAgainstSdr
     \<lparr>sdr = \<lparr>issuer = None, subject = None,
             claims = [\<lparr>claimType = None, claimValue = None, issuers = None,
                        credentialType = None, credentialContext = Some ''ctx'',
                        essential = Some True\<rparr>]\<rparr>,
      presentation = \<lparr>verifiableCredential =
             [\<lparr>credentialSubject = Some Map.empty,
               vc_issuer = Some \<lparr>issuer_id = Some ''did:x''\<rparr>,
               vc_context = None, vc_type = Some [''VerifiableCredential'']\<rparr>]\<rparr>\<rparr>
     = Inl TypeError
   \<and> validatePresentationAgainstSdr
     \<lparr>sdr = \<lparr>issuer = None, subject = None,
             claims = [\<lparr>claimType = None, claimValue = None, issuers = None,
                        credentialType = Some ''VerifiableCredential'', credentialContext = None,
                        essential = None\<rparr>]\<rparr>,
      presentation = \<lparr>verifiableCredential =
             [\<lparr>credentialSubject = Some Map.empty,
               vc_issuer = Some \<lparr>issuer_id = Some ''did:x''\<rparr>,
               vc_context = Some [], vc_type = None\<rparr>]\<rparr>\<rparr>
     = Inl TypeError"
  (is "(\<exists>res. validatePresentationAgainstSdr ?good = Inr res)
       \<and> validatePresentationAgainstSdr ?noctx = Inl TypeError
       \<and> validatePresentationAgainstSdr ?notype = Inl TypeError")
proof (intro conjI)
  have "\<forall>c\<in>set (verifiableCredential (presentation ?good)). well_formed_credential c"
    by (simp add: well_formed_credential_def)
  with validate_returns_if_well_formed [of ?good]
  show "\<exists>res. validatePresentationAgainstSdr ?good = Inr res" by blast
next
  let ?r = "\<lparr>claimType = None, claimValue = None, issuers = None,
             credentialType = None, credentialContext = Some ''ctx'', essential = Some True\<rparr>"
  let ?c = "\<lparr>credentialSubject = Some Map.empty,
             vc_issuer = Some \<lparr>issuer_id = Some ''did:x''\<rparr>,
             vc_context = None, vc_type = Some [''VerifiableCredential'']\<rparr>"
  have "?r \<in> set (claims (sdr ?noctx)) \<and> ?c \<in> set (verifiableCredential (presentation ?noctx))
        \<and> \<not> truthy (claimType ?r) \<and> issuers ?r = None
        \<and> credentialContext ?r = Some ''ctx'' \<and> ''ctx'' \<noteq> [] \<and> vc_context ?c = None"
    by simp
  with validate_returns_if_well_formed [of ?noctx ?r ?c "''ctx''"]
  show "validatePresentationAgainstSdr ?noctx = Inl TypeError" by blast
next
  let ?r = "\<lparr>claimType = None, claimValue = None, issuers = None,
             credentialType = Some ''VerifiableCredential'', credentialContext = None,
             essential = None\<rparr>"
  let ?c = "\<lparr>credentialSubject = Some Map.empty,
             vc_issuer = Some \<lparr>issuer_id = Some ''did:x''\<rparr>,
             vc_context = Some [], vc_type = None\<rparr>"
  have "?r \<in> set (claims (sdr ?notype)) \<and> ?c \<in> set (verifiableCredential (presentation ?notype))
        \<and> \<not> truthy (claimType ?r) \<and> issuers ?r = None \<and> \<not> truthy (credentialContext ?r)
        \<and> credentialType ?r = Some ''VerifiableCredential'' \<and> ''VerifiableCredential'' \<noteq> []
        \<and> vc_type ?c = None"
    by simp
  with validate_returns_if_well_formed [of ?notype ?r ?c "''VerifiableCredential''"]
  show "validatePresentationAgainstSdr ?notype = Inl TypeError" by blast
qed

text \<open>
  C3, as amended. For a request with a non-empty \<^verbatim>\<open>claimType\<close> \<open>T\<close>, a non-empty
  \<^verbatim>\<open>claimValue\<close> \<open>V\<close> and no other constraint, the predicate accepts a credential
  exactly when \<^verbatim>\<open>credentialSubject[T]\<close> is the string \<open>V\<close>.
\<close>

theorem matches_claimValue_iff:
  assumes "claimType r = Some T" and "T \<noteq> []"
    and "claimValue r = Some V" and "V \<noteq> []"
    and "issuers r = None" and "credentialType r = None" and "credentialContext r = None"
  shows "matches r c = Inr True \<longleftrightarrow>
           (\<exists>obj. credentialSubject c = Some obj \<and> js_get obj T = JStr V)"
  using assms by (cases "credentialSubject c") (simp_all add: matches_def return_false_if_def cond_claimValue_def cond_claimType_def cond_issuers_def
  cond_credentialContext_def cond_credentialType_def subject_get_def)

text \<open>
  The claim as stated, for every \<open>V\<close> that is set, fails at \<^verbatim>\<open>claimValue: ''\<close>:
  the guard on \<^verbatim>\<open>claimValue\<close> is falsy, the presence check applies, and a
  credential whose name is \<^verbatim>\<open>'Alice'\<close> is accepted although \<^verbatim>\<open>'Alice' !== ''\<close>.
\<close>

theorem matches_claimValue_empty_counterexample:
  "matches \<lparr>claimType = Some ''name'', claimValue = Some '''', issuers = None,
            credentialType = None, credentialContext = None, essential = None\<rparr>
           \<lparr>credentialSubject = Some [''name'' \<mapsto> JStr ''Alice''],
            vc_issuer = Some \<lparr>issuer_id = Some ''did:x''\<rparr>,
            vc_context = Some [], vc_type = Some []\<rparr> = Inr True
   \<and> js_get [''name'' \<mapsto> JStr ''Alice''] ''name'' \<noteq> JStr ''''"
  by (simp add: matches_defs)

text \<open>Equality is exact: \<^verbatim>\<open>'Alice'\<close> is accepted, \<^verbatim>\<open>'alice'\<close> is not.\<close>

theorem matches_claimValue_iff_witness:
  "matches \<lparr>claimType = Some ''name'', claimValue = Some ''Alice'', issuers = None,
            credentialType = None, credentialContext = None, essential = Some True\<rparr>
           \<lparr>credentialSubject = Some [''name'' \<mapsto> JStr ''Alice''],
            vc_issuer = Some \<lparr>issuer_id = Some ''did:x''\<rparr>,
            vc_context = Some [], vc_type = Some []\<rparr> = Inr True
   \<and> matches \<lparr>claimType = Some ''name'', claimValue = Some ''Alice'', issuers = None,
            credentialType = None, credentialContext = None, essential = Some True\<rparr>
           \<lparr>credentialSubject = Some [''name'' \<mapsto> JStr ''alice''],
            vc_issuer = Some \<lparr>issuer_id = Some ''did:x''\<rparr>,
            vc_context = Some [], vc_type = Some []\<rparr> \<noteq> Inr True"
  (is "matches ?r ?c1 = Inr True \<and> matches ?r ?c2 \<noteq> Inr True")
proof -
  have r: "claimType ?r = Some ''name''" "''name'' \<noteq> []" "claimValue ?r = Some ''Alice''"
    "''Alice'' \<noteq> []" "issuers ?r = None" "credentialType ?r = None" "credentialContext ?r = None"
    by simp_all
  show ?thesis
    using matches_claimValue_iff [OF r, of ?c1] matches_claimValue_iff [OF r, of ?c2]
    by (simp add: js_get_def object_prototype_def)
qed

text \<open>
  C4, as amended. For a request with a non-empty \<^verbatim>\<open>claimType\<close> \<open>T\<close>, no
  \<^verbatim>\<open>claimValue\<close> and no other constraint, the predicate accepts a credential
  exactly when \<^verbatim>\<open>credentialSubject[T]\<close> is not \<^verbatim>\<open>undefined\<close>; the empty string
  and \<open>0\<close> count as present.
\<close>

theorem matches_claimType_iff:
  assumes "claimType r = Some T" and "T \<noteq> []"
    and "claimValue r = None"
    and "issuers r = None" and "credentialType r = None" and "credentialContext r = None"
  shows "matches r c = Inr True \<longleftrightarrow>
           (\<exists>obj. credentialSubject c = Some obj \<and> js_get obj T \<noteq> JUndefined)"
  using assms by (cases "credentialSubject c") (simp_all add: matches_def return_false_if_def cond_claimValue_def cond_claimType_def cond_issuers_def
  cond_credentialContext_def cond_credentialType_def subject_get_def)

text \<open>
  The claim as stated, for every \<open>T\<close> that is set, fails at \<^verbatim>\<open>claimType: ''\<close>:
  the guard on \<^verbatim>\<open>claimType\<close> is falsy, no check applies, and a credential with an
  empty subject is accepted although \<^verbatim>\<open>credentialSubject['']\<close> is undefined.
\<close>

theorem matches_claimType_empty_counterexample:
  "matches \<lparr>claimType = Some '''', claimValue = None, issuers = None,
            credentialType = None, credentialContext = None, essential = None\<rparr>
           \<lparr>credentialSubject = Some Map.empty,
            vc_issuer = Some \<lparr>issuer_id = Some ''did:x''\<rparr>,
            vc_context = Some [], vc_type = Some []\<rparr> = Inr True
   \<and> js_get Map.empty '''' = JUndefined"
  by (simp add: matches_defs)

text \<open>
  The values \<^verbatim>\<open>''\<close> and \<open>0\<close> are present and a missing key is not; a key that is
  missing from the subject but inherited, as \<^verbatim>\<open>constructor\<close> is, reads as defined.
\<close>

theorem matches_claimType_iff_witness:
  "matches \<lparr>claimType = Some ''name'', claimValue = None, issuers = None,
            credentialType = None, credentialContext = None, essential = Some True\<rparr>
           \<lparr>credentialSubject = Some [''name'' \<mapsto> JStr ''''],
            vc_issuer = Some \<lparr>issuer_id = Some ''did:x''\<rparr>,
            vc_context = Some [], vc_type = Some []\<rparr> = Inr True
   \<and> matches \<lparr>claimType = Some ''name'', claimValue = None, issuers = None,
            credentialType = None, credentialContext = None, essential = Some True\<rparr>
           \<lparr>credentialSubject = Some [''name'' \<mapsto> JNum 0],
            vc_issuer = Some \<lparr>issuer_id = Some ''did:x''\<rparr>,
            vc_context = Some [], vc_type = Some []\<rparr> = Inr True
   \<and> matches \<lparr>claimType = Some ''name'', claimValue = None, issuers = None,
            credentialType = None, credentialContext = None, essential = Some True\<rparr>
           \<lparr>credentialSubject = Some Map.empty,
            vc_issuer = Some \<lparr>issuer_id = Some ''did:x''\<rparr>,
            vc_context = Some [], vc_type = Some []\<rparr> \<noteq> Inr True
   \<and> matches \<lparr>claimType = Some ''constructor'', claimValue = None, issuers = None,
            credentialType = None, credentialContext = None, essential = Some True\<rparr>
           \<lparr>credentialSubject = Some Map.empty,
            vc_issuer = Some \<lparr>issuer_id = Some ''did:x''\<rparr>,
            vc_context = Some [], vc_type = Some []\<rparr> = Inr True"
  (is "matches ?r ?c1 = Inr True \<and> matches ?r ?c2 = Inr True \<and> matches ?r ?c3 \<noteq> Inr True
       \<and> matches ?q ?c3 = Inr True")
proof -
  have r: "claimType ?r = Some ''name''" "''name'' \<noteq> []" "claimValue ?r = None"
    "issuers ?r = None" "credentialType ?r = None" "credentialContext ?r = None"
    by simp_all
  have q: "claimType ?q = Some ''constructor''" "''constructor'' \<noteq> []" "claimValue ?q = None"
    "issuers ?q = None" "credentialType ?q = None" "credentialContext ?q = None"
    by simp_all
  show ?thesis
    using matches_claimType_iff [OF r, of ?c1] matches_claimType_iff [OF r, of ?c2]
      matches_claimType_iff [OF r, of ?c3] matches_claimType_iff [OF q, of ?c3]
    by (simp add: js_get_def object_prototype_def)
qed

text \<open>
  C5. In a result the validator returns, \<^verbatim>\<open>valid\<close> is false exactly when some
  entry of \<^verbatim>\<open>claims\<close> has \<^verbatim>\<open>essential === true\<close> and no credential; an entry that
  is not essential never makes it false.
\<close>

theorem validate_valid_iff:
  assumes "validatePresentationAgainstSdr args = Inr res"
  shows "valid res = False \<longleftrightarrow>
           (\<exists>x\<in>set (result_claims res). essential x = Some True \<and> credentials x = [])"
  using validate_loop_claims [OF assms [unfolded validatePresentationAgainstSdr_def]]
  by auto

text \<open>An essential request for \<^verbatim>\<open>name\<close> against a credential without it.\<close>

theorem validate_valid_iff_witness:
  "validatePresentationAgainstSdr
     \<lparr>sdr = \<lparr>issuer = None, subject = None,
             claims = [\<lparr>claimType = Some ''name'', claimValue = None, issuers = None,
                        credentialType = None, credentialContext = None,
                        essential = Some True\<rparr>]\<rparr>,
      presentation = \<lparr>verifiableCredential =
             [\<lparr>credentialSubject = Some Map.empty,
               vc_issuer = Some \<lparr>issuer_id = Some ''did:x''\<rparr>,
               vc_context = Some [], vc_type = Some []\<rparr>]\<rparr>\<rparr>
     = Inr \<lparr>valid = False,
            result_claims = [\<lparr>claimType = Some ''name'', claimValue = None, issuers = None,
                        credentialType = None, credentialContext = None,
                        essential = Some True, credentials = []\<rparr>]\<rparr>
   \<and> (valid \<lparr>valid = False,
            result_claims = [\<lparr>claimType = Some ''name'', claimValue = None, issuers = None,
                        credentialType = None, credentialContext = None,
                        essential = Some True, credentials = []\<rparr>]\<rparr> = False
        \<longleftrightarrow> (\<exists>x\<in>set (result_claims \<lparr>valid = False,
            result_claims = [\<lparr>claimType = Some ''name'', claimValue = None, issuers = None,
                        credentialType = None, credentialContext = None,
                        essential = Some True, credentials = []\<rparr>]\<rparr>).
               essential x = Some True \<and> credentials x = []))"
  (is "validatePresentationAgainstSdr ?args = Inr ?res \<and> _")
proof -
  have h: "validatePresentationAgainstSdr ?args = Inr ?res"
    by (simp add: validatePresentationAgainstSdr_def matches_defs extend_defs)
  from validate_valid_iff [OF h] h show ?thesis by blast
qed

text \<open>
  C6. In a result the validator returns, \<^verbatim>\<open>claims\<close> is as long as the manifest's
  \<^verbatim>\<open>claims\<close>, and its i-th entry, cut back to the fields of a ClaimRequest, is the
  manifest's i-th request.
\<close>

theorem validate_claims_mirror:
  assumes "validatePresentationAgainstSdr args = Inr res"
  shows "length (result_claims res) = length (claims (sdr args)) \<and>
         (\<forall>i<length (claims (sdr args)).
            ClaimRequest.truncate (result_claims res ! i) = claims (sdr args) ! i)"
proof -
  from validate_loop_claims [OF assms [unfolded validatePresentationAgainstSdr_def]]
  have m: "map ClaimRequest.truncate (result_claims res) = claims (sdr args)"
    by auto
  then have l: "length (result_claims res) = length (claims (sdr args))"
    by (metis length_map)
  moreover have "ClaimRequest.truncate (result_claims res ! i) = claims (sdr args) ! i"
    if "i < length (claims (sdr args))" for i
    using that l m by (metis nth_map)
  ultimately show ?thesis by blast
qed

text \<open>Two requests for the same claim type keep their places.\<close>

theorem validate_claims_mirror_witness:
  "validatePresentationAgainstSdr
     \<lparr>sdr = \<lparr>issuer = None, subject = None,
             claims = [\<lparr>claimType = Some ''name'', claimValue = None, issuers = None,
                        credentialType = None, credentialContext = None,
                        essential = Some True\<rparr>,
                       \<lparr>claimType = Some ''name'', claimValue = Some ''Bob'', issuers = None,
                        credentialType = None, credentialContext = None,
                        essential = None\<rparr>]\<rparr>,
      presentation = \<lparr>verifiableCredential =
             [\<lparr>credentialSubject = Some [''name'' \<mapsto> JStr ''Alice''],
               vc_issuer = Some \<lparr>issuer_id = Some ''did:x''\<rparr>,
               vc_context = Some [], vc_type = Some []\<rparr>]\<rparr>\<rparr>
     = Inr \<lparr>valid = True,
            result_claims =
              [\<lparr>claimType = Some ''name'', claimValue = None, issuers = None,
                credentialType = None, credentialContext = None, essential = Some True,
                credentials = [\<lparr>credentialSubject = Some [''name'' \<mapsto> JStr ''Alice''],
                                vc_issuer = Some \<lparr>issuer_id = Some ''did:x''\<rparr>,
                                vc_context = Some [], vc_type = Some []\<rparr>]\<rparr>,
               \<lparr>claimType = Some ''name'', claimValue = Some ''Bob'', issuers = None,
                credentialType = None, credentialContext = None, essential = None,
                credentials = []\<rparr>]\<rparr>
   \<and> length (result_claims \<lparr>valid = True,
            result_claims =
              [\<lparr>claimType = Some ''name'', claimValue = None, issuers = None,
                credentialType = None, credentialContext = None, essential = Some True,
                credentials = [\<lparr>credentialSubject = Some [''name'' \<mapsto> JStr ''Alice''],
                                vc_issuer = Some \<lparr>issuer_id = Some ''did:x''\<rparr>,
                                vc_context = Some [], vc_type = Some []\<rparr>]\<rparr>,
               \<lparr>claimType = Some ''name'', claimValue = Some ''Bob'', issuers = None,
                credentialType = None, credentialContext = None, essential = None,
                credentials = []\<rparr>]\<rparr>) = 2"
  (is "validatePresentationAgainstSdr ?args = Inr ?res \<and> _")
proof -
  have h: "validatePresentationAgainstSdr ?args = Inr ?res"
    by (simp add: validatePresentationAgainstSdr_def matches_defs extend_defs)
  from validate_claims_mirror [OF h] h show ?thesis by simp
qed

section \<open>The builder\<close>

text \<open>
  C7. When the identity is found and has a \<^verbatim>\<open>Secp256k1\<close> key, the builder's outcome
  is that of \<^verbatim>\<open>createJWT\<close> on a payload without \<^verbatim>\<open>issuer\<close>, with
  \<^verbatim>\<open>type = 'sdr'\<close> and the manifest's other fields; the DID of the identity is the
  \<^verbatim>\<open>issuer\<close> option of the token.
\<close>

theorem payload_has_no_issuer:
  assumes "identityManagerGetIdentity (issuer (data args)) w = (Inr identity, w1)"
    and "find (\<lambda>k. key_type k = ''Secp256k1'') (keys identity) = Some key"
  shows "\<exists>payload.
           createSelectiveDisclosureRequest identityManagerGetIdentity createJWT args w =
             (case createJWT payload
                     \<lparr>signer_kid = kid key, alg = ''ES256K-R'',
                      jwt_issuer = identity_did identity\<rparr> w1 of
                (r, w2) \<Rightarrow> (r, (data args)\<lparr>issuer := None\<rparr>, w2))
           \<and> issuer payload = None \<and> payload_type payload = ''sdr''
           \<and> subject payload = subject (data args) \<and> claims payload = claims (data args)"
  by (rule exI [of _ "SDRManifest.extend ((data args)\<lparr>issuer := None\<rparr>) (SDRPayload.fields ''sdr'')"])
     (simp add: createSelectiveDisclosureRequest_def assms SDRManifest.extend_def
        SDRPayload.fields_def)

text \<open>Scenario D: the payload the signer receives for a manifest issued by \<^verbatim>\<open>did:z\<close>.\<close>

theorem payload_has_no_issuer_witness:
  "resolving \<lparr>identity_did = ''did:z'', keys = [\<lparr>kid = ''k1'', key_type = ''Secp256k1''\<rparr>]\<rparr>
     (issuer (data \<lparr>data = \<lparr>issuer = Some ''did:z'', subject = Some ''did:s'', claims = []\<rparr>\<rparr>))
     ([] :: SDRPayload list)
   = (Inr \<lparr>identity_did = ''did:z'', keys = [\<lparr>kid = ''k1'', key_type = ''Secp256k1''\<rparr>]\<rparr>, [])
   \<and> find (\<lambda>k. key_type k = ''Secp256k1'') [\<lparr>kid = ''k1'', key_type = ''Secp256k1''\<rparr>]
       = Some \<lparr>kid = ''k1'', key_type = ''Secp256k1''\<rparr>
   \<and> createSelectiveDisclosureRequest
       (resolving \<lparr>identity_did = ''did:z'', keys = [\<lparr>kid = ''k1'', key_type = ''Secp256k1''\<rparr>]\<rparr>)
       (recording_signer ''jwt'')
       \<lparr>data = \<lparr>issuer = Some ''did:z'', subject = Some ''did:s'', claims = []\<rparr>\<rparr> []
     = (Inr ''jwt'', \<lparr>issuer = None, subject = Some ''did:s'', claims = []\<rparr>,
        [\<lparr>issuer = None, subject = Some ''did:s'', claims = [], payload_type = ''sdr''\<rparr>])"
  (is "?idm (issuer (data ?args)) [] = (Inr ?identity, []) \<and> find ?p ?ks = Some ?key \<and> _")
proof -
  have a: "?idm (issuer (data ?args)) [] = (Inr ?identity, [])"
    by (simp add: resolving_def)
  have b: "find ?p (keys ?identity) = Some ?key"
    by simp
  from payload_has_no_issuer
         [where identityManagerGetIdentity = ?idm and args = ?args and w = "[] :: SDRPayload list"
            and identity = ?identity and ?w1.0 = "[] :: SDRPayload list" and key = ?key
            and createJWT = "recording_signer ''jwt''", OF a b]
  obtain payload where
    p: "createSelectiveDisclosureRequest ?idm (recording_signer ''jwt'') ?args [] =
          (Inr ''jwt'', \<lparr>issuer = None, subject = Some ''did:s'', claims = []\<rparr>, [payload])"
       "issuer payload = None" "payload_type payload = ''sdr''"
       "subject payload = Some ''did:s''" "claims payload = []"
    by (auto simp: recording_signer_def)
  from p(2-5) have "payload =
      \<lparr>issuer = None, subject = Some ''did:s'', claims = [], payload_type = ''sdr''\<rparr>"
    by (cases payload) simp
  with p(1) a b show ?thesis by simp
qed

text \<open>
  C8, as amended. After the call the caller's manifest has the same \<^verbatim>\<open>subject\<close> and
  \<^verbatim>\<open>claims\<close>; its \<^verbatim>\<open>issuer\<close> is deleted once the identity lookup has succeeded,
  and it is untouched when the lookup rejects.
\<close>

theorem create_changes_only_issuer:
  "fst (snd (createSelectiveDisclosureRequest identityManagerGetIdentity createJWT args w)) =
     (case fst (identityManagerGetIdentity (issuer (data args)) w) of
        Inl e \<Rightarrow> data args
      | Inr identity \<Rightarrow> (data args)\<lparr>issuer := None\<rparr>)
   \<and> subject (fst (snd (createSelectiveDisclosureRequest identityManagerGetIdentity createJWT args w)))
       = subject (data args)
   \<and> claims (fst (snd (createSelectiveDisclosureRequest identityManagerGetIdentity createJWT args w)))
       = claims (data args)"
  by (auto simp: createSelectiveDisclosureRequest_def Let_def split: prod.splits sum.splits option.splits)

text \<open>
  The claim as stated, that no field of the manifest is removed, fails: the
  manifest that entered with \<^verbatim>\<open>issuer: 'did:z'\<close> leaves without it.
\<close>

theorem create_deletes_issuer_counterexample:
  "fst (snd (createSelectiveDisclosureRequest
          (resolving \<lparr>identity_did = ''did:z'', keys = [\<lparr>kid = ''k1'', key_type = ''Secp256k1''\<rparr>]\<rparr>)
          (recording_signer ''jwt'')
          \<lparr>data = \<lparr>issuer = Some ''did:z'', subject = Some ''did:s'', claims = []\<rparr>\<rparr> []))
     = \<lparr>issuer = None, subject = Some ''did:s'', claims = []\<rparr>
   \<and> \<lparr>issuer = None, subject = Some ''did:s'', claims = []\<rparr>
       \<noteq> data \<lparr>data = \<lparr>issuer = Some ''did:z'', subject = Some ''did:s'', claims = []\<rparr>\<rparr>"
  by (simp add: createSelectiveDisclosureRequest_def resolving_def recording_signer_def Let_def)

text \<open>A lookup that succeeds (the key is then missing) and one that rejects.\<close>

theorem create_changes_only_issuer_witness:
  "fst (snd (createSelectiveDisclosureRequest
          (resolving \<lparr>identity_did = ''did:z'', keys = []\<rparr>)
          (recording_signer ''jwt'')
          \<lparr>data = \<lparr>issuer = Some ''did:z'', subject = None,
                    claims = [\<lparr>claimType = Some ''name'', claimValue = None, issuers = None,
                               credentialType = None, credentialContext = None,
                               essential = Some True\<rparr>]\<rparr>\<rparr> []))
     = \<lparr>issuer = None, subject = None,
         claims = [\<lparr>claimType = Some ''name'', claimValue = None, issuers = None,
                    credentialType = None, credentialContext = None, essential = Some True\<rparr>]\<rparr>
   \<and> fst (snd (createSelectiveDisclosureRequest
          (resolving \<lparr>identity_did = ''did:z'', keys = []\<rparr>)
          (recording_signer ''jwt'')
          \<lparr>data = \<lparr>issuer = Some ''did:unknown'', subject = None, claims = []\<rparr>\<rparr> []))
     = \<lparr>issuer = Some ''did:unknown'', subject = None, claims = []\<rparr>"
  using create_changes_only_issuer
      [of "resolving \<lparr>identity_did = ''did:z'', keys = []\<rparr>" "recording_signer ''jwt''"
          "\<lparr>data = \<lparr>issuer = Some ''did:z'', subject = None,
                    claims = [\<lparr>claimType = Some ''name'', claimValue = None, issuers = None,
                               credentialType = None, credentialContext = None,
                               essential = Some True\<rparr>]\<rparr>\<rparr>" "[]"]
    create_changes_only_issuer
      [of "resolving \<lparr>identity_did = ''did:z'', keys = []\<rparr>" "recording_signer ''jwt''"
          "\<lparr>data = \<lparr>issuer = Some ''did:unknown'', subject = None, claims = []\<rparr>\<rparr>" "[]"]
  by (simp add: resolving_def)

section \<open>Substring filter and element membership\<close>

text \<open>
  C9, as amended. For a non-empty string \<open>T\<close>: the filter the store receives for a
  request whose \<^verbatim>\<open>credentialType\<close> (\<^verbatim>\<open>credentialContext\<close>) is \<open>T\<close> holds a
  \<^verbatim>\<open>Like\<close> clause on the column \<^verbatim>\<open>credentialType\<close> (\<^verbatim>\<open>context\<close>) with the
  pattern \<^verbatim>\<open>%T%\<close>; the validator accepts a credential for such a request only if
  \<open>T\<close> is an element of its \<^verbatim>\<open>type\<close> (\<^verbatim>\<open>@context\<close>) array.
\<close>

theorem like_filter_versus_membership:
  assumes "T \<noteq> []"
  shows
   "(i < length (claims (gather_sdr args)) \<and> credentialType (claims (gather_sdr args) ! i) = Some T
       \<longrightarrow> \<lparr>column = ''credentialType'', vals = [''%'' @ T @ ''%''], op = Some ''Like''\<rparr>
            \<in> set (where_clauses
                 (snd (getVerifiableCredentialsForSdr (recording_store answer) args []) ! i)))
    \<and> (i < length (claims (gather_sdr args)) \<and> credentialContext (claims (gather_sdr args) ! i) = Some T
       \<longrightarrow> \<lparr>column = ''context'', vals = [''%'' @ T @ ''%''], op = Some ''Like''\<rparr>
            \<in> set (where_clauses
                 (snd (getVerifiableCredentialsForSdr (recording_store answer) args []) ! i)))
    \<and> (credentialType r = Some T \<and> matches r c = Inr True
       \<longrightarrow> (\<exists>ts. vc_type c = Some ts \<and> T \<in> set ts))
    \<and> (credentialContext r = Some T \<and> matches r c = Inr True
       \<longrightarrow> (\<exists>cs. vc_context c = Some cs \<and> T \<in> set cs))"
  using assms gather_recorded_filter_contains like_credentialType_pushed
    like_credentialContext_pushed matches_requires_type matches_requires_context
  by blast

text \<open>
  The claim as stated, for every \<^verbatim>\<open>credentialType\<close> that is set, fails at the empty
  string: the validator accepts a credential whose \<^verbatim>\<open>type\<close> array does not
  hold \<^verbatim>\<open>''\<close>, and the gatherer's filter holds no clause at all.
\<close>

theorem credentialType_empty_counterexample:
  "matches \<lparr>claimType = None, claimValue = None, issuers = None,
            credentialType = Some '''', credentialContext = None, essential = None\<rparr>
           \<lparr>credentialSubject = Some Map.empty,
            vc_issuer = Some \<lparr>issuer_id = Some ''did:x''\<rparr>,
            vc_context = Some [], vc_type = Some [''VerifiableCredential'']\<rparr> = Inr True
   \<and> '''' \<notin> set [''VerifiableCredential'']
   \<and> snd (getVerifiableCredentialsForSdr (recording_store no_credentials)
          \<lparr>gather_sdr = \<lparr>issuer = None, subject = None,
             claims = [\<lparr>claimType = None, claimValue = None, issuers = None,
                        credentialType = Some '''', credentialContext = None, essential = None\<rparr>]\<rparr>,
           gather_did = None\<rparr> [])
      = [\<lparr>where_clauses = []\<rparr>]"
  by (simp add: matches_defs getVerifiableCredentialsForSdr_def recording_store_def Let_def
      push_defs)

text \<open>A request for \<^verbatim>\<open>VerifiableCredential\<close> in both places.\<close>

theorem like_filter_versus_membership_witness:
  "\<lparr>column = ''credentialType'', vals = [''%VerifiableCredential%''], op = Some ''Like''\<rparr>
     \<in> set (where_clauses
          (snd (getVerifiableCredentialsForSdr (recording_store no_credentials)
             \<lparr>gather_sdr = \<lparr>issuer = None, subject = None,
                 claims = [\<lparr>claimType = None, claimValue = None, issuers = None,
                            credentialType = Some ''VerifiableCredential'',
                            credentialContext = Some ''VerifiableCredential'',
                            essential = None\<rparr>]\<rparr>,
               gather_did = None\<rparr> []) ! 0))
   \<and> \<lparr>column = ''context'', vals = [''%VerifiableCredential%''], op = Some ''Like''\<rparr>
     \<in> set (where_clauses
          (snd (getVerifiableCredentialsForSdr (recording_store no_credentials)
             \<lparr>gather_sdr = \<lparr>issuer = None, subject = None,
                 claims = [\<lparr>claimType = None, claimValue = None, issuers = None,
                            credentialType = Some ''VerifiableCredential'',
                            credentialContext = Some ''VerifiableCredential'',
                            essential = None\<rparr>]\<rparr>,
               gather_did = None\<rparr> []) ! 0))
   \<and> (\<exists>ts. vc_type \<lparr>credentialSubject = Some Map.empty,
                     vc_issuer = Some \<lparr>issuer_id = Some ''did:x''\<rparr>,
                     vc_context = Some [''VerifiableCredential''],
                     vc_type = Some [''VerifiableCredential'', ''Profile'']\<rparr> = Some ts
            \<and> ''VerifiableCredential'' \<in> set ts)
   \<and> (\<exists>cs. vc_context \<lparr>credentialSubject = Some Map.empty,
                     vc_issuer = Some \<lparr>issuer_id = Some ''did:x''\<rparr>,
                     vc_context = Some [''VerifiableCredential''],
                     vc_type = Some [''VerifiableCredential'', ''Profile'']\<rparr> = Some cs
            \<and> ''VerifiableCredential'' \<in> set cs)"
proof -
  let ?T = "''VerifiableCredential''"
  let ?r = "\<lparr>claimType = None, claimValue = None, issuers = None,
             credentialType = Some ?T, credentialContext = Some ?T, essential = None\<rparr>"
  let ?args = "\<lparr>gather_sdr = \<lparr>issuer = None, subject = None, claims = [?r]\<rparr>,
                gather_did = None\<rparr>"
  let ?c = "\<lparr>credentialSubject = Some Map.empty,
             vc_issuer = Some \<lparr>issuer_id = Some ''did:x''\<rparr>,
             vc_context = Some [?T], vc_type = Some [?T, ''Profile'']\<rparr>"
  have t: "?T \<noteq> []" by simp
  have g: "0 < length (claims (gather_sdr ?args))"
    "credentialType (claims (gather_sdr ?args) ! 0) = Some ?T"
    "credentialContext (claims (gather_sdr ?args) ! 0) = Some ?T"
    by simp_all
  have m: "credentialType ?r = Some ?T" "credentialContext ?r = Some ?T"
    "matches ?r ?c = Inr True"
    by (simp_all add: matches_defs)
  from like_filter_versus_membership [OF t, of 0 ?args no_credentials ?r ?c] g m
  show ?thesis by simp
qed

section \<open>Truthiness of the request's strings\<close>

text \<open>
  C10. In the matching predicate an empty \<^verbatim>\<open>claimValue\<close>, \<^verbatim>\<open>claimType\<close>,
  \<^verbatim>\<open>credentialType\<close> or \<^verbatim>\<open>credentialContext\<close> behaves as an absent one. So a
  request with a claim type and \<^verbatim>\<open>claimValue: ''\<close> falls to the presence check:
  a credential whose value under that claim type is defined matches, whatever it is.
\<close>

theorem matches_empty_string_is_unset:
  "matches (r\<lparr>claimValue := Some ''''\<rparr>) c = matches (r\<lparr>claimValue := None\<rparr>) c
   \<and> matches (r\<lparr>claimType := Some ''''\<rparr>) c = matches (r\<lparr>claimType := None\<rparr>) c
   \<and> matches (r\<lparr>credentialType := Some ''''\<rparr>) c = matches (r\<lparr>credentialType := None\<rparr>) c
   \<and> matches (r\<lparr>credentialContext := Some ''''\<rparr>) c = matches (r\<lparr>credentialContext := None\<rparr>) c
   \<and> (claimType r = Some T \<and> T \<noteq> [] \<and> claimValue r = Some ''''
        \<and> issuers r = None \<and> credentialType r = None \<and> credentialContext r = None
        \<and> credentialSubject c = Some obj \<and> js_get obj T \<noteq> JUndefined
      \<longrightarrow> matches r c = Inr True)"
proof (intro conjI impI)
  assume "claimType r = Some T \<and> T \<noteq> [] \<and> claimValue r = Some ''''
        \<and> issuers r = None \<and> credentialType r = None \<and> credentialContext r = None
        \<and> credentialSubject c = Some obj \<and> js_get obj T \<noteq> JUndefined"
  then show "matches r c = Inr True"
    by (simp add: matches_def return_false_if_def cond_claimValue_def cond_claimType_def
        cond_issuers_def cond_credentialContext_def cond_credentialType_def subject_get_def)
qed (simp_all add: matches_def cond_other_fields cond_empty_string)

text \<open>\<^verbatim>\<open>claimValue: ''\<close> against a credential whose name is \<^verbatim>\<open>'Alice'\<close>.\<close>

theorem matches_empty_string_is_unset_witness:
  "matches \<lparr>claimType = Some ''name'', claimValue = Some '''', issuers = None,
            credentialType = None, credentialContext = None, essential = None\<rparr>
           \<lparr>credentialSubject = Some [''name'' \<mapsto> JStr ''Alice''],
            vc_issuer = Some \<lparr>issuer_id = Some ''did:x''\<rparr>,
            vc_context = Some [], vc_type = Some []\<rparr> = Inr True"
  (is "matches ?r ?c = Inr True")
proof -
  have "claimType ?r = Some ''name'' \<and> ''name'' \<noteq> [] \<and> claimValue ?r = Some ''''
        \<and> issuers ?r = None \<and> credentialType ?r = None \<and> credentialContext ?r = None
        \<and> credentialSubject ?c = Some [''name'' \<mapsto> JStr ''Alice'']
        \<and> js_get [''name'' \<mapsto> JStr ''Alice''] ''name'' \<noteq> JUndefined"
    by (simp add: js_get_def object_prototype_def)
  with matches_empty_string_is_unset
         [of ?r ?c "''name''" "[''name'' \<mapsto> JStr ''Alice'']"]
  show ?thesis by blast
qed

end
